theory Spec2Isabelle
  imports Complex_Main
begin

section \<open>Python values and errors\<close>

text \<open>
  The exceptions that the modelled part of \<^verbatim>\<open>main.py\<close> and the library calls it makes can
  raise. A function that may raise returns \<open>exn + 'a\<close>, with \<open>Inl\<close> for the exception
  that reaches the caller.
\<close>

datatype exn =
    AttributeError
  | TypeError
  | ValueError
  | ZeroDivisionError
  | OSError
  | CvError

text \<open>
  A Python float is modelled by the real number it denotes; where a computation of the
  source can produce the float \<open>nan\<close>, the value is an \<open>npfloat\<close>.
\<close>

datatype npfloat = Finite real | NaN

text \<open>\<^verbatim>\<open>int(x)\<close> on a float truncates towards zero.\<close>

definition py_int :: "real \<Rightarrow> int" where
  "py_int x = (if x \<ge> 0 then \<lfloor>x\<rfloor> else \<lceil>x\<rceil>)"

text \<open>
  \<^verbatim>\<open>max(0, x)\<close>: Python keeps the first argument unless the second compares greater, and
  every comparison with \<open>nan\<close> is false.
\<close>

definition py_max0 :: "npfloat \<Rightarrow> real" where
  "py_max0 x = (case x of Finite r \<Rightarrow> (if r > 0 then r else 0) | NaN \<Rightarrow> 0)"

section \<open>The random source\<close>

text \<open>
  \<^verbatim>\<open>random.uniform(a, b)\<close> is \<^verbatim>\<open>a + (b - a) * self.random()\<close>, and
  \<^verbatim>\<open>random.randint(a, b)\<close> is \<^verbatim>\<open>randrange(a, b + 1)\<close>, which raises \<open>ValueError\<close> on an
  empty range and returns \<^verbatim>\<open>a + self._randbelow(b + 1 - a)\<close> otherwise. The raw draws of one
  call of \<^verbatim>\<open>process_image\<close> are its inputs here: five values of \<^verbatim>\<open>random()\<close>, in the
  order the source asks for them, and the two calls of \<^verbatim>\<open>_randbelow\<close>.
\<close>

record draws =
  u_crop :: real
  u_scale :: real
  u_h :: real
  u_s :: real
  u_l :: real
  below_x :: "nat \<Rightarrow> nat"
  below_y :: "nat \<Rightarrow> nat"

definition unit_draw :: "real \<Rightarrow> bool" where
  "unit_draw u = (0 \<le> u \<and> u < 1)"

definition below_ok :: "(nat \<Rightarrow> nat) \<Rightarrow> bool" where
  "below_ok r = (\<forall>n. 0 < n \<longrightarrow> r n < n)"

definition valid_draws :: "draws \<Rightarrow> bool" where
  "valid_draws d =
     (unit_draw (u_crop d) \<and> unit_draw (u_scale d) \<and> unit_draw (u_h d) \<and>
      unit_draw (u_s d) \<and> unit_draw (u_l d) \<and> below_ok (below_x d) \<and> below_ok (below_y d))"

definition uniform :: "real \<Rightarrow> real \<Rightarrow> real \<Rightarrow> real" where
  "uniform u a b = a + (b - a) * u"

definition randint :: "(nat \<Rightarrow> nat) \<Rightarrow> int \<Rightarrow> int \<Rightarrow> exn + int" where
  "randint randbelow a b =
     (let width = b + 1 - a
      in if width > 0 then Inr (a + int (randbelow (nat width))) else Inl ValueError)"

section \<open>Level-based parameters\<close>

record image_params =
  crop_percent :: real
  scale_factor :: real
  noise_opacity :: real
  color_shift_h :: real
  color_shift_s :: real
  color_shift_l :: real

text \<open>\<^verbatim>\<open>process_image\<close>, lines 84 to 105.\<close>

definition image_level_params :: "int \<Rightarrow> draws \<Rightarrow> image_params" where
  "image_level_params level d =
     (if level = 1 then
        \<lparr>crop_percent = uniform (u_crop d) 0.02 0.03,
         scale_factor = uniform (u_scale d) 0.995 1.005,
         noise_opacity = 0.002,
         color_shift_h = uniform (u_h d) (-0.5) 0.5,
         color_shift_s = uniform (u_s d) (-1) 1,
         color_shift_l = uniform (u_l d) (-1.5) 1.5\<rparr>
      else if level = 2 then
        \<lparr>crop_percent = uniform (u_crop d) 0.02 0.04,
         scale_factor = uniform (u_scale d) 0.985 1.015,
         noise_opacity = 0.003,
         color_shift_h = uniform (u_h d) (-0.8) 0.8,
         color_shift_s = uniform (u_s d) (-1.5) 1.5,
         color_shift_l = uniform (u_l d) (-2.5) 2.5\<rparr>
      else
        \<lparr>crop_percent = uniform (u_crop d) 0.03 0.06,
         scale_factor = uniform (u_scale d) 0.97 1.03,
         noise_opacity = 0.004,
         color_shift_h = uniform (u_h d) (-1.0) 1.0,
         color_shift_s = uniform (u_s d) (-2.0) 2.0,
         color_shift_l = uniform (u_l d) (-3.0) 3.0\<rparr>)"

record video_params =
  zoom_rate :: real
  jitter_range :: real
  gop_size :: int
  crf :: int

text \<open>\<^verbatim>\<open>process_video\<close>, lines 148 to 163.\<close>

definition video_level_params :: "int \<Rightarrow> video_params" where
  "video_level_params level =
     (if level = 1 then
        \<lparr>zoom_rate = 0.002, jitter_range = 1, gop_size = 30, crf = 22\<rparr>
      else if level = 2 then
        \<lparr>zoom_rate = 0.003, jitter_range = 1.5, gop_size = 25, crf = 21\<rparr>
      else
        \<lparr>zoom_rate = 0.005, jitter_range = 2, gop_size = 20, crf = 20\<rparr>)"

subsection \<open>The tiers of the specification\<close>

text \<open>
  The parameter tables as the specification words them: three tiers, for each a range per
  sampled image parameter (noise opacity is a fixed value, the colour deltas are symmetric
  around zero) and fixed video parameters. A profile is sampled from a tier's ranges by one
  uniform draw per range.
\<close>

datatype tier = Low | Medium | High

record image_ranges =
  crop_lo :: real
  crop_hi :: real
  scale_lo :: real
  scale_hi :: real
  noise_value :: real
  hue_delta :: real
  sat_delta :: real
  light_delta :: real

fun tier_image_ranges :: "tier \<Rightarrow> image_ranges" where
  "tier_image_ranges Low =
     \<lparr>crop_lo = 0.02, crop_hi = 0.03, scale_lo = 0.995, scale_hi = 1.005,
      noise_value = 0.002, hue_delta = 0.5, sat_delta = 1, light_delta = 1.5\<rparr>"
| "tier_image_ranges Medium =
     \<lparr>crop_lo = 0.02, crop_hi = 0.04, scale_lo = 0.985, scale_hi = 1.015,
      noise_value = 0.003, hue_delta = 0.8, sat_delta = 1.5, light_delta = 2.5\<rparr>"
| "tier_image_ranges High =
     \<lparr>crop_lo = 0.03, crop_hi = 0.06, scale_lo = 0.97, scale_hi = 1.03,
      noise_value = 0.004, hue_delta = 1.0, sat_delta = 2.0, light_delta = 3.0\<rparr>"

definition sample_profile :: "image_ranges \<Rightarrow> draws \<Rightarrow> image_params" where
  "sample_profile r d =
     \<lparr>crop_percent = uniform (u_crop d) (crop_lo r) (crop_hi r),
      scale_factor = uniform (u_scale d) (scale_lo r) (scale_hi r),
      noise_opacity = noise_value r,
      color_shift_h = uniform (u_h d) (- hue_delta r) (hue_delta r),
      color_shift_s = uniform (u_s d) (- sat_delta r) (sat_delta r),
      color_shift_l = uniform (u_l d) (- light_delta r) (light_delta r)\<rparr>"

fun tier_video_params :: "tier \<Rightarrow> video_params" where
  "tier_video_params Low = \<lparr>zoom_rate = 0.002, jitter_range = 1, gop_size = 30, crf = 22\<rparr>"
| "tier_video_params Medium = \<lparr>zoom_rate = 0.003, jitter_range = 1.5, gop_size = 25, crf = 21\<rparr>"
| "tier_video_params High = \<lparr>zoom_rate = 0.005, jitter_range = 2, gop_size = 20, crf = 20\<rparr>"

section \<open>Perceptual hash engine\<close>

text \<open>
  An \<^verbatim>\<open>ImageHash\<close> of the \<^verbatim>\<open>imagehash\<close> library wraps a two-dimensional numpy array of
  booleans, \<^verbatim>\<open>hash.hash\<close>: a list of rows. \<^verbatim>\<open>len(hash.hash)\<close> is the number of rows,
  \<^verbatim>\<open>hash.hash.size\<close> the number of entries, \<^verbatim>\<open>hash.hash.dtype.itemsize\<close> is 1 for the
  boolean dtype.
\<close>

type_synonym imagehash = "bool list list"

definition hash_size :: "imagehash \<Rightarrow> nat" where
  "hash_size h = length (concat h)"

definition flatten :: "'a list list \<Rightarrow> 'a list" where
  "flatten h = concat h"

definition itemsize :: nat where
  "itemsize = 1"

definition count_nonzero :: "bool list \<Rightarrow> nat" where
  "count_nonzero bs = length (filter (\<lambda>b. b) bs)"

text \<open>
  \<^verbatim>\<open>ImageHash.__sub__\<close>: a \<open>TypeError\<close> when the two arrays differ in size, otherwise
  \<^verbatim>\<open>numpy.count_nonzero(self.hash.flatten() != other.hash.flatten())\<close>.
\<close>

definition hash_sub :: "imagehash \<Rightarrow> imagehash \<Rightarrow> exn + nat" where
  "hash_sub h1 h2 =
     (if hash_size h1 \<noteq> hash_size h2 then Inl TypeError
      else Inr (count_nonzero (map2 (\<lambda>a b. a \<noteq> b) (flatten h1) (flatten h2))))"

text \<open>
  Lines 73 to 75 of \<^verbatim>\<open>calculate_phash_difference\<close>, repeated as lines 242 to 244 of
  \<^verbatim>\<open>analyze_video_uniqueness\<close>: the difference of the hashes, the maximal difference
  computed from the first hash, and their quotient as a percentage. Both operands of the
  division are Python integers, so a zero divisor raises.
\<close>

definition hash_percentage :: "imagehash \<Rightarrow> imagehash \<Rightarrow> exn + real" where
  "hash_percentage hash1 hash2 =
     (case hash_sub hash1 hash2 of
        Inl e \<Rightarrow> Inl e
      | Inr diff \<Rightarrow>
          let max_diff = length hash1 * itemsize * 8
          in if max_diff = 0 then Inl ZeroDivisionError
             else Inr (real diff / real max_diff * 100))"

text \<open>
  The libraries the source calls, as far as their results decide what it returns:
  \<^verbatim>\<open>Image.open\<close>, \<^verbatim>\<open>imagehash.phash\<close>, \<^verbatim>\<open>VideoFileClip\<close>, the conversion of a frame to
  a PIL image (\<^verbatim>\<open>cv2.cvtColor\<close> then \<^verbatim>\<open>Image.fromarray\<close>), the extraction of an audio
  track to samples (\<^verbatim>\<open>write_audiofile\<close> then \<^verbatim>\<open>librosa.load\<close>), and \<^verbatim>\<open>librosa.stft\<close>.
  Each may raise. A clip has a duration, a frame at each time and an audio track or
  \<open>None\<close>.
\<close>

record ('f, 'a) clip =
  clip_duration :: real
  clip_get_frame :: "real \<Rightarrow> exn + 'f"
  clip_audio :: "'a option"

record ('i, 'f, 'a) media =
  image_open :: "string \<Rightarrow> exn + 'i"
  phash :: "'i \<Rightarrow> exn + imagehash"
  video_open :: "string \<Rightarrow> exn + ('f, 'a) clip"
  to_pil :: "'f \<Rightarrow> exn + 'i"
  load_audio :: "'a \<Rightarrow> exn + real list"
  stft :: "real list \<Rightarrow> exn + complex list list"

text \<open>
  \<^verbatim>\<open>imagehash.phash\<close> is called with its default \<^verbatim>\<open>hash_size=8\<close> and then returns an
  array of 8 rows of 8 bits.
\<close>

definition phash_shape :: "imagehash \<Rightarrow> bool" where
  "phash_shape h = (length h = 8 \<and> list_all (\<lambda>row. length row = 8) h)"

definition phash_contract :: "('i \<Rightarrow> exn + imagehash) \<Rightarrow> bool" where
  "phash_contract ph = (\<forall>img h. ph img = Inr h \<longrightarrow> phash_shape h)"

definition calculate_phash_difference ::
  "('i, 'f, 'a) media \<Rightarrow> string \<Rightarrow> string \<Rightarrow> exn + real" where
  "calculate_phash_difference m img1_path img2_path =
     (case image_open m img1_path of Inl e \<Rightarrow> Inl e | Inr img1 \<Rightarrow>
      case image_open m img2_path of Inl e \<Rightarrow> Inl e | Inr img2 \<Rightarrow>
      case phash m img1 of Inl e \<Rightarrow> Inl e | Inr hash1 \<Rightarrow>
      case phash m img2 of Inl e \<Rightarrow> Inl e | Inr hash2 \<Rightarrow>
      hash_percentage hash1 hash2)"

subsection \<open>The Hamming distance of the specification\<close>

text \<open>
  The count of the positions at which two bit vectors of equal length differ, and the
  normalisation \<open>distance / totalBits * 100\<close> with 64 bits in total.
\<close>

fun hamming :: "bool list \<Rightarrow> bool list \<Rightarrow> nat" where
  "hamming (x # xs) (y # ys) = (if x = y then 0 else 1) + hamming xs ys"
| "hamming _ _ = 0"

definition total_bits :: nat where
  "total_bits = 64"

definition spec_hash_difference :: "imagehash \<Rightarrow> imagehash \<Rightarrow> real" where
  "spec_hash_difference h1 h2 =
     real (hamming (concat h1) (concat h2)) / real total_bits * 100"

section \<open>Image transform pipeline\<close>

text \<open>
  An image (a numpy array of pixels) is represented by its shape, rows by columns; the
  pixel values are not modelled. Each operation of the pipeline is given by what it does
  to the shape, and by when it raises.
\<close>

record image =
  rows :: nat
  cols :: nat

text \<open>
  The extent of a numpy slice \<^verbatim>\<open>a:b\<close> along an axis of length \<open>n\<close>: a negative bound
  counts from the end, both bounds are clamped into the axis.
\<close>

definition slice_bound :: "nat \<Rightarrow> int \<Rightarrow> int" where
  "slice_bound n i = (if i < 0 then max 0 (int n + i) else min i (int n))"

definition slice_len :: "nat \<Rightarrow> int \<Rightarrow> int \<Rightarrow> nat" where
  "slice_len n a b = nat (slice_bound n b - slice_bound n a)"

definition np_slice2 :: "image \<Rightarrow> int \<Rightarrow> int \<Rightarrow> int \<Rightarrow> int \<Rightarrow> image" where
  "np_slice2 img y0 y1 x0 x1 =
     \<lparr>rows = slice_len (rows img) y0 y1, cols = slice_len (cols img) x0 x1\<rparr>"

text \<open>
  \<^verbatim>\<open>cv2.resize(src, (w, h))\<close> and \<^verbatim>\<open>cv2.warpAffine(src, M, (w, h))\<close> return an image of
  \<open>h\<close> rows and \<open>w\<close> columns and raise on an empty source or an empty target size;
  \<^verbatim>\<open>cv2.addWeighted\<close> needs two arrays of one shape and returns that shape;
  \<^verbatim>\<open>cv2.cvtColor\<close> and the channel updates keep the shape.
\<close>

definition cv2_resize :: "image \<Rightarrow> nat \<times> nat \<Rightarrow> exn + image" where
  "cv2_resize src dsize =
     (if rows src = 0 \<or> cols src = 0 \<or> fst dsize = 0 \<or> snd dsize = 0 then Inl CvError
      else Inr \<lparr>rows = snd dsize, cols = fst dsize\<rparr>)"

definition cv2_warpAffine :: "image \<Rightarrow> nat \<times> nat \<Rightarrow> exn + image" where
  "cv2_warpAffine src dsize =
     (if rows src = 0 \<or> cols src = 0 \<or> fst dsize = 0 \<or> snd dsize = 0 then Inl CvError
      else Inr \<lparr>rows = snd dsize, cols = fst dsize\<rparr>)"

definition cv2_addWeighted :: "image \<Rightarrow> image \<Rightarrow> exn + image" where
  "cv2_addWeighted src1 src2 = (if src1 = src2 then Inr src1 else Inl CvError)"

definition cv2_cvtColor :: "image \<Rightarrow> image" where
  "cv2_cvtColor src = src"

text \<open>
  \<^verbatim>\<open>cv2.imread\<close> returns \<open>None\<close> for a path it cannot read or a format it cannot decode;
  it does not raise. \<^verbatim>\<open>cv2.imwrite\<close> raises for an extension without an encoder and
  otherwise returns whether the file was written.
\<close>

record files =
  imread :: "string \<Rightarrow> image option"
  imwrite :: "string \<Rightarrow> image \<Rightarrow> exn + bool"

text \<open>
  What a call of \<^verbatim>\<open>process_image\<close> that returns leaves behind: the value returned, the
  crop box it sampled, and the image it handed to \<^verbatim>\<open>cv2.imwrite\<close>.
\<close>

record image_run =
  returned :: bool
  start_x :: int
  start_y :: int
  crop_w :: int
  crop_h :: int
  written :: image

text \<open>
  \<^verbatim>\<open>process_image\<close>. Reading the shape of \<open>None\<close> raises \<open>AttributeError\<close>. The noise
  array is generated with the shape of the image it is blended with.
\<close>

definition process_image ::
  "files \<Rightarrow> draws \<Rightarrow> string \<Rightarrow> string \<Rightarrow> int \<Rightarrow> exn + image_run" where
  "process_image fs d input_path output_path level =
     (case imread fs input_path of
        None \<Rightarrow> Inl AttributeError
      | Some img \<Rightarrow>
          let height = rows img;
              width = cols img;
              p = image_level_params level d;
              cw = py_int (real width * (1 - crop_percent p));
              ch = py_int (real height * (1 - crop_percent p))
          in
          case randint (below_x d) 0 (int width - cw) of Inl e \<Rightarrow> Inl e | Inr sx \<Rightarrow>
          case randint (below_y d) 0 (int height - ch) of Inl e \<Rightarrow> Inl e | Inr sy \<Rightarrow>
          case cv2_resize (np_slice2 img sy (sy + ch) sx (sx + cw)) (width, height) of
            Inl e \<Rightarrow> Inl e | Inr resized \<Rightarrow>
          case cv2_warpAffine resized (width, height) of Inl e \<Rightarrow> Inl e | Inr scaled \<Rightarrow>
          let noise = scaled in
          case cv2_addWeighted scaled noise of Inl e \<Rightarrow> Inl e | Inr noisy \<Rightarrow>
          let hls = cv2_cvtColor noisy;
              out = cv2_cvtColor hls
          in
          case imwrite fs output_path out of
            Inl e \<Rightarrow> Inl e
          | Inr _ \<Rightarrow>
              Inr \<lparr>returned = True, start_x = sx, start_y = sy, crop_w = cw, crop_h = ch,
                   written = out\<rparr>)"

section \<open>Uniqueness analyzer\<close>

text \<open>
  \<^verbatim>\<open>np.linspace(start, stop, num)\<close>: a negative \<open>num\<close> raises, no point for 0, the start
  alone for 1, and otherwise \<open>num\<close> points in steps of \<open>(stop - start) / (num - 1)\<close>.
\<close>

definition linspace :: "real \<Rightarrow> real \<Rightarrow> int \<Rightarrow> exn + real list" where
  "linspace start stop num =
     (if num < 0 then Inl ValueError
      else if num = 1 then Inr [start]
      else Inr (map (\<lambda>i. start + real i * ((stop - start) / real_of_int (num - 1)))
                  [0..<nat num]))"

definition np_mean :: "real list \<Rightarrow> real" where
  "np_mean xs = sum_list xs / real (length xs)"

text \<open>The body of the \<^verbatim>\<open>try\<close> of the keyframe loop, lines 230 to 244.\<close>

definition sample_keyframe ::
  "('i, 'f, 'a) media \<Rightarrow> ('f, 'a) clip \<Rightarrow> ('f, 'a) clip \<Rightarrow> real \<Rightarrow> exn + real" where
  "sample_keyframe m original_clip processed_clip t =
     (case clip_get_frame original_clip t of Inl e \<Rightarrow> Inl e | Inr orig_frame \<Rightarrow>
      case clip_get_frame processed_clip t of Inl e \<Rightarrow> Inl e | Inr proc_frame \<Rightarrow>
      case to_pil m orig_frame of Inl e \<Rightarrow> Inl e | Inr orig_pil \<Rightarrow>
      case to_pil m proc_frame of Inl e \<Rightarrow> Inl e | Inr proc_pil \<Rightarrow>
      case phash m orig_pil of Inl e \<Rightarrow> Inl e | Inr orig_hash \<Rightarrow>
      case phash m proc_pil of Inl e \<Rightarrow> Inl e | Inr proc_hash \<Rightarrow>
      hash_percentage orig_hash proc_hash)"

text \<open>
  The loop over the keyframe times, lines 228 to 247, with the list
  \<^verbatim>\<open>phash_differences\<close> as its state: a sample that raises is passed over by the bare
  \<^verbatim>\<open>except: continue\<close>, any other is appended.
\<close>

fun keyframe_loop ::
  "('i, 'f, 'a) media \<Rightarrow> ('f, 'a) clip \<Rightarrow> ('f, 'a) clip \<Rightarrow> real list \<Rightarrow> real list
     \<Rightarrow> real list" where
  "keyframe_loop m oc pc [] phash_differences = phash_differences"
| "keyframe_loop m oc pc (t # ts) phash_differences =
     (case sample_keyframe m oc pc t of
        Inl e \<Rightarrow> keyframe_loop m oc pc ts phash_differences
      | Inr percentage \<Rightarrow> keyframe_loop m oc pc ts (phash_differences @ [percentage]))"

text \<open>
  \<^verbatim>\<open>scipy.spatial.distance.cosine(u, v)\<close>, the distance \<open>1 - u\<cdot>v / (|u| |v|)\<close>: it raises
  on vectors of different lengths, and where a norm is zero the float division is
  \<open>0/0\<close>, that is \<open>nan\<close>.
\<close>

definition dot :: "real list \<Rightarrow> real list \<Rightarrow> real" where
  "dot u v = sum_list (map2 (\<lambda>a b. a * b) u v)"

definition cosine :: "real list \<Rightarrow> real list \<Rightarrow> exn + npfloat" where
  "cosine u v =
     (if length u \<noteq> length v then Inl ValueError
      else let uv = dot u v; uu = dot u u; vv = dot v v
           in if sqrt (uu * vv) = 0 then Inr NaN
              else Inr (Finite (1 - uv / sqrt (uu * vv))))"

definition np_abs :: "complex list list \<Rightarrow> real list list" where
  "np_abs spec = map (map cmod) spec"

text \<open>
  The body of the \<^verbatim>\<open>try\<close> of the audio branch up to the assignment of
  \<^verbatim>\<open>audio_similarity\<close>, lines 256 to 275. The two temporary files and their removal do
  not enter the value: the removal comes after the assignment, and an exception it raises
  is passed over with the value assigned.
\<close>

definition audio_analysis :: "('i, 'f, 'a) media \<Rightarrow> 'a \<Rightarrow> 'a \<Rightarrow> exn + real" where
  "audio_analysis m original_audio processed_audio =
     (case load_audio m original_audio of Inl e \<Rightarrow> Inl e | Inr orig_audio \<Rightarrow>
      case load_audio m processed_audio of Inl e \<Rightarrow> Inl e | Inr proc_audio \<Rightarrow>
      let n = min (length orig_audio) (length proc_audio) in
      case stft m (take n orig_audio) of Inl e \<Rightarrow> Inl e | Inr orig_spec \<Rightarrow>
      case stft m (take n proc_audio) of Inl e \<Rightarrow> Inl e | Inr proc_spec \<Rightarrow>
      case cosine (flatten (np_abs orig_spec)) (flatten (np_abs proc_spec)) of
        Inl e \<Rightarrow> Inl e
      | Inr c \<Rightarrow>
          let similarity = (case c of Finite r \<Rightarrow> Finite (1 - r) | NaN \<Rightarrow> NaN)
          in Inr (py_max0
                    (case similarity of Finite s \<Rightarrow> Finite ((1 - s) * 100) | NaN \<Rightarrow> NaN)))"

text \<open>
  \<^verbatim>\<open>analyze_video_uniqueness\<close>. Opening a clip and \<^verbatim>\<open>np.linspace\<close> stand outside every
  \<^verbatim>\<open>try\<close>; the audio branch runs inside one whose handler is \<^verbatim>\<open>pass\<close>, which leaves
  \<^verbatim>\<open>audio_similarity\<close> at its initial 0.
\<close>

definition analyze_video_uniqueness ::
  "('i, 'f, 'a) media \<Rightarrow> string \<Rightarrow> string \<Rightarrow> exn + real \<times> real" where
  "analyze_video_uniqueness m original_path processed_path =
     (case video_open m original_path of Inl e \<Rightarrow> Inl e | Inr original_clip \<Rightarrow>
      case video_open m processed_path of Inl e \<Rightarrow> Inl e | Inr processed_clip \<Rightarrow>
      let duration = min (clip_duration original_clip) (clip_duration processed_clip) in
      case linspace 0 duration (min 10 (py_int duration)) of
        Inl e \<Rightarrow> Inl e
      | Inr keyframe_times \<Rightarrow>
          let phash_differences =
                keyframe_loop m original_clip processed_clip keyframe_times [];
              avg_phash_diff =
                (if phash_differences \<noteq> [] then np_mean phash_differences else 0);
              audio_similarity =
                (case (clip_audio original_clip, clip_audio processed_clip) of
                   (Some oa, Some pa) \<Rightarrow>
                     (case audio_analysis m oa pa of Inl e \<Rightarrow> 0 | Inr s \<Rightarrow> s)
                 | _ \<Rightarrow> 0)
          in Inr (avg_phash_diff, audio_similarity))"

text \<open>
  The aggregate as the specification words it: the arithmetic mean of the percentages of
  the samples that succeed, and 0 when none does.
\<close>

definition successful_samples ::
  "('i, 'f, 'a) media \<Rightarrow> ('f, 'a) clip \<Rightarrow> ('f, 'a) clip \<Rightarrow> real list \<Rightarrow> real list" where
  "successful_samples m oc pc ts =
     List.map_filter
       (\<lambda>t. case sample_keyframe m oc pc t of Inl e \<Rightarrow> None | Inr p \<Rightarrow> Some p) ts"

definition spec_aggregate :: "real list \<Rightarrow> real" where
  "spec_aggregate ps = (if ps = [] then 0 else sum_list ps / real (length ps))"

section \<open>Risk classifier\<close>

text \<open>
  The three labels returned by \<^verbatim>\<open>MediaProcessor.get_risk_level\<close>, byte for byte as the
  string literals stand in \<^verbatim>\<open>main.py\<close> (lines 291, 293 and 295). They are the labels of
  the low, the medium and the high risk tier, in this order.
\<close>

definition risk_low :: string where
  "risk_low =
    [CHR 0xE2, CHR 0x80, CHR 0x93, CHR 0xC3, CHR 0xB9, CHR 0xE2, CHR 0x80,
     CHR 0x93, CHR 0xE2, CHR 0x88, CHR 0x8F, CHR 0xE2, CHR 0x80, CHR 0x93,
     CHR 0xE2, CHR 0x88, CHR 0x91, CHR 0xE2, CHR 0x80, CHR 0x93, CHR 0xE2,
     CHR 0x88, CHR 0xAB, CHR 0xE2, CHR 0x80, CHR 0x93, CHR 0xE2, CHR 0x88,
     CHR 0x8F, CHR 0xE2, CHR 0x80, CHR 0x93, CHR 0xCF, CHR 0x80]"

definition risk_medium :: string where
  "risk_medium =
    [CHR 0xE2, CHR 0x80, CHR 0x93, CHR 0xC2, CHR 0xB0, CHR 0xE2, CHR 0x80,
     CHR 0x94, CHR 0xC3, CHR 0x84, CHR 0xE2, CHR 0x80, CHR 0x93, CHR 0xC2,
     CHR 0xB5, CHR 0xE2, CHR 0x80, CHR 0x93, CHR 0xC2, CHR 0xA5, CHR 0xE2,
     CHR 0x80, CHR 0x93, CHR 0xCE, CHR 0xA9, CHR 0xE2, CHR 0x80, CHR 0x93,
     CHR 0xE2, CHR 0x88, CHR 0x8F, CHR 0xE2, CHR 0x80, CHR 0x93, CHR 0xCF,
     CHR 0x80]"

definition risk_high :: string where
  "risk_high =
    [CHR 0xE2, CHR 0x80, CHR 0x93, CHR 0xC3, CHR 0xAD, CHR 0xE2, CHR 0x80,
     CHR 0x94, CHR 0xC3, CHR 0xA3, CHR 0xE2, CHR 0x80, CHR 0x94, CHR 0xC3,
     CHR 0x85, CHR 0xE2, CHR 0x80, CHR 0x93, CHR 0xC3, CHR 0xA6, CHR 0xE2,
     CHR 0x80, CHR 0x93, CHR 0xE2, CHR 0x88, CHR 0xAB, CHR 0xE2, CHR 0x80,
     CHR 0x93, CHR 0xE2, CHR 0x88, CHR 0x8F, CHR 0xE2, CHR 0x80, CHR 0x93,
     CHR 0xCF, CHR 0x80]"

text \<open>
  \<^verbatim>\<open>get_risk_level(self, phash_diff, audio_similarity=None)\<close>. Comparing the float
  percentage with the integer literals 45 and 30 is exact. The optional second argument
  is \<open>None\<close> by default.
\<close>

definition get_risk_level :: "real \<Rightarrow> real option \<Rightarrow> string" where
  "get_risk_level phash_diff audio_similarity =
     (if phash_diff \<ge> 45 then risk_low
      else if phash_diff \<ge> 30 then risk_medium
      else risk_high)"

section \<open>Example inputs\<close>

text \<open>
  Concrete inputs on which the properties below are evaluated. Images, frames and audio
  tracks are numbered; the hash of image \<open>i\<close> has the first \<open>i\<close> bits of each of its 8
  rows set. The first frame of the original clip cannot be extracted, the broken clip yields no
  frame at all, and the silent clip has no audio track.
\<close>

definition ex_hash :: "nat \<Rightarrow> imagehash" where
  "ex_hash i = replicate 8 (replicate (min i 8) True @ replicate (8 - min i 8) False)"

definition ex_original :: "(nat, nat) clip" where
  "ex_original =
     \<lparr>clip_duration = 3,
      clip_get_frame = (\<lambda>t. if t = 0 then Inl OSError else Inr 0),
      clip_audio = Some 3\<rparr>"

definition ex_processed :: "(nat, nat) clip" where
  "ex_processed =
     \<lparr>clip_duration = 3.5, clip_get_frame = (\<lambda>t. Inr 2), clip_audio = Some 2\<rparr>"

definition ex_silent :: "(nat, nat) clip" where
  "ex_silent =
     \<lparr>clip_duration = 3, clip_get_frame = (\<lambda>t. Inr 2), clip_audio = None\<rparr>"

definition ex_broken :: "(nat, nat) clip" where
  "ex_broken =
     \<lparr>clip_duration = 2, clip_get_frame = (\<lambda>t. Inl OSError), clip_audio = Some 2\<rparr>"

definition ex_media :: "(nat, nat, nat) media" where
  "ex_media =
     \<lparr>image_open = (\<lambda>p. if p = ''a.png'' then Inr 0
                        else if p = ''b.png'' then Inr 2 else Inl OSError),
      phash = (\<lambda>i. Inr (ex_hash i)),
      video_open = (\<lambda>p. if p = ''original.mp4'' then Inr ex_original
                        else if p = ''processed.mp4'' then Inr ex_processed
                        else if p = ''silent.mp4'' then Inr ex_silent
                        else if p = ''broken.mp4'' then Inr ex_broken
                        else Inl OSError),
      to_pil = (\<lambda>f. Inr f),
      load_audio = (\<lambda>a. if a = 3 then Inr [1, 0] else Inr [0, 1, 1]),
      stft = (\<lambda>xs. Inr [map complex_of_real xs])\<rparr>"

definition ex_draws :: draws where
  "ex_draws =
     \<lparr>u_crop = 1/2, u_scale = 1/2, u_h = 1/4, u_s = 0, u_l = 3/4,
      below_x = (\<lambda>n. n - 1), below_y = (\<lambda>n. n div 2)\<rparr>"

definition ex_files :: files where
  "ex_files =
     \<lparr>imread = (\<lambda>p. if p = ''in.png'' then Some \<lparr>rows = 600, cols = 400\<rparr> else None),
      imwrite = (\<lambda>p img. Inr True)\<rparr>"

section \<open>Properties of the level-based parameters\<close>

text \<open>
  C5. The level is reduced to three tiers, in the image and in the video pipeline alike:
  level 1 takes its parameters from the low tier, level 2 from the medium tier, and every
  level from 3 upwards (so 4 and 5 as well) from the high tier. The three tiers differ
  from each other, in the image ranges and in the video parameters.
\<close>

theorem level_tiers:
  "image_level_params 1 d = sample_profile (tier_image_ranges Low) d \<and>
   video_level_params 1 = tier_video_params Low \<and>
   image_level_params 2 d = sample_profile (tier_image_ranges Medium) d \<and>
   video_level_params 2 = tier_video_params Medium \<and>
   (level \<ge> 3 \<longrightarrow>
      image_level_params level d = sample_profile (tier_image_ranges High) d \<and>
      video_level_params level = tier_video_params High) \<and>
   tier_video_params Low \<noteq> tier_video_params Medium \<and>
   tier_video_params Medium \<noteq> tier_video_params High \<and>
   tier_video_params Low \<noteq> tier_video_params High \<and>
   tier_image_ranges Low \<noteq> tier_image_ranges Medium \<and>
   tier_image_ranges Medium \<noteq> tier_image_ranges High \<and>
   tier_image_ranges Low \<noteq> tier_image_ranges High"
  by (simp add: image_level_params_def video_level_params_def sample_profile_def)

theorem level_tiers_witness:
  "(5::int) \<ge> 3 \<and>
   image_level_params 5 ex_draws = sample_profile (tier_image_ranges High) ex_draws \<and>
   video_level_params 5 = tier_video_params High \<and>
   image_level_params 4 ex_draws = image_level_params 3 ex_draws \<and>
   video_level_params 4 = video_level_params 3"
  using level_tiers [where level = 5 and d = ex_draws]
        level_tiers [where level = 4 and d = ex_draws]
        level_tiers [where level = 3 and d = ex_draws]
  by simp

section \<open>Properties of the perceptual hash engine\<close>

lemma count_nonzero_hamming:
  "count_nonzero (map2 (\<lambda>a b. a \<noteq> b) xs ys) = hamming xs ys"
  by (induction xs ys rule: hamming.induct) (simp_all add: count_nonzero_def)

lemma hamming_le: "hamming xs ys \<le> length xs"
  by (induction xs ys rule: hamming.induct) simp_all

lemma hamming_self: "hamming xs xs = 0"
  by (induction xs) simp_all

lemma phash_shape_size:
  assumes "phash_shape h"
  shows "length (concat h) = 64"
proof -
  from assms have len: "length h = 8" and rows: "\<forall>row \<in> set h. length row = 8"
    by (simp_all add: phash_shape_def list_all_iff)
  have "length (concat h) = sum_list (map length h)"
    by (simp add: length_concat)
  also have "map length h = map (\<lambda>_. 8) h"
    using rows by (simp cong: map_cong)
  also have "sum_list (map (\<lambda>_. 8::nat) h) = 8 * length h"
    by (simp add: sum_list_triv)
  finally show ?thesis using len by simp
qed

lemma hash_sub_hamming:
  "hash_sub h1 h2 =
     (if hash_size h1 \<noteq> hash_size h2 then Inl TypeError
      else Inr (hamming (concat h1) (concat h2)))"
  unfolding hash_sub_def flatten_def count_nonzero_hamming ..

lemma hash_percentage_shape:
  assumes "phash_shape h1" "phash_shape h2"
  shows "hash_percentage h1 h2 = Inr (spec_hash_difference h1 h2)"
  using assms phash_shape_size [OF assms(1)] phash_shape_size [OF assms(2)]
  by (simp add: hash_percentage_def hash_sub_hamming hash_size_def itemsize_def
      spec_hash_difference_def total_bits_def phash_shape_def)

lemma hash_percentage_range:
  assumes "phash_shape h1" and "hash_percentage h1 h2 = Inr p"
  shows "0 \<le> p \<and> p \<le> 100"
proof -
  have n: "length (concat h1) = 64" and r: "length h1 = 8"
    using assms(1) phash_shape_size by (simp_all add: phash_shape_def)
  have "hamming (concat h1) (concat h2) \<le> 64"
    using hamming_le [of "concat h1" "concat h2"] n by simp
  then have le: "real (hamming (concat h1) (concat h2)) \<le> 64" by simp
  from assms(2) have "p = real (hamming (concat h1) (concat h2)) / 64 * 100"
    by (simp add: hash_percentage_def hash_sub_hamming itemsize_def r split: if_splits)
  with le show ?thesis by simp
qed

lemma ex_phash_contract: "phash_contract (phash ex_media)"
  by (auto simp: phash_contract_def ex_media_def phash_shape_def ex_hash_def list_all_iff)

lemma ex_image_a: "image_open ex_media ''a.png'' = Inr 0"
  by (simp add: ex_media_def)

lemma ex_image_b: "image_open ex_media ''b.png'' = Inr 2"
  by (simp add: ex_media_def)

lemma ex_phash: "phash ex_media i = Inr (ex_hash i)"
  by (simp add: ex_media_def)

text \<open>
  C7. Comparing a valid image with itself gives 0: when the path opens as an image and
  the image has a perceptual hash, \<^verbatim>\<open>calculate_phash_difference\<close> of the path with itself
  returns the percentage 0.
\<close>

theorem hash_difference_self:
  assumes "image_open m x = Inr img" and "phash m img = Inr h"
    and "phash_contract (phash m)"
  shows "calculate_phash_difference m x x = Inr 0"
proof -
  have shape: "phash_shape h"
    using assms(2,3) by (auto simp: phash_contract_def)
  have "calculate_phash_difference m x x = hash_percentage h h"
    using assms(1,2) by (simp add: calculate_phash_difference_def)
  also have "\<dots> = Inr (spec_hash_difference h h)"
    by (rule hash_percentage_shape [OF shape shape])
  also have "spec_hash_difference h h = 0"
    by (simp add: spec_hash_difference_def hamming_self)
  finally show ?thesis .
qed

theorem hash_difference_self_witness:
  "image_open ex_media ''b.png'' = Inr 2 \<and> phash ex_media 2 = Inr (ex_hash 2) \<and>
   phash_contract (phash ex_media) \<and>
   calculate_phash_difference ex_media ''b.png'' ''b.png'' = Inr 0"
  using ex_image_b ex_phash [of 2] ex_phash_contract
    hash_difference_self [OF ex_image_b ex_phash [of 2] ex_phash_contract]
  by simp

text \<open>
  C8. For two valid images, \<^verbatim>\<open>calculate_phash_difference\<close> returns the Hamming distance
  of their two hashes, each a vector of 64 bits, divided by the 64 bits in total and
  multiplied by 100.
\<close>

theorem hash_difference_hamming:
  assumes "image_open m a = Inr ia" and "image_open m b = Inr ib"
    and "phash m ia = Inr ha" and "phash m ib = Inr hb"
    and "phash_contract (phash m)"
  shows "calculate_phash_difference m a b = Inr (spec_hash_difference ha hb) \<and>
         spec_hash_difference ha hb = real (hamming (concat ha) (concat hb)) / 64 * 100 \<and>
         length (concat ha) = 64 \<and> length (concat hb) = 64"
proof -
  have sa: "phash_shape ha" and sb: "phash_shape hb"
    using assms(3,4,5) by (auto simp: phash_contract_def)
  have "calculate_phash_difference m a b = hash_percentage ha hb"
    using assms(1-4) by (simp add: calculate_phash_difference_def)
  also have "\<dots> = Inr (spec_hash_difference ha hb)"
    by (rule hash_percentage_shape [OF sa sb])
  finally show ?thesis
    using phash_shape_size [OF sa] phash_shape_size [OF sb]
    by (simp add: spec_hash_difference_def total_bits_def)
qed

lemma ex_hamming: "hamming (concat (ex_hash 0)) (concat (ex_hash 2)) = 16"
  by (simp add: ex_hash_def eval_nat_numeral)

theorem hash_difference_hamming_witness:
  "image_open ex_media ''a.png'' = Inr 0 \<and> image_open ex_media ''b.png'' = Inr 2 \<and>
   phash ex_media 0 = Inr (ex_hash 0) \<and> phash ex_media 2 = Inr (ex_hash 2) \<and>
   phash_contract (phash ex_media) \<and>
   calculate_phash_difference ex_media ''a.png'' ''b.png'' = Inr 25"
  using ex_image_a ex_image_b ex_phash [of 0] ex_phash [of 2] ex_phash_contract ex_hamming
    hash_difference_hamming
      [OF ex_image_a ex_image_b ex_phash [of 0] ex_phash [of 2] ex_phash_contract]
  by simp

section \<open>Properties of the image transform pipeline\<close>

lemma crop_percent_range:
  assumes "unit_draw (u_crop d)"
  shows "0.02 \<le> crop_percent (image_level_params level d) \<and>
         crop_percent (image_level_params level d) \<le> 0.06"
  using assms by (auto simp: image_level_params_def uniform_def unit_draw_def)

lemma crop_length_range:
  assumes "0 \<le> cp" and "cp \<le> 1"
  shows "0 \<le> py_int (real n * (1 - cp)) \<and> py_int (real n * (1 - cp)) \<le> int n"
proof -
  have nonneg: "0 \<le> real n * (1 - cp)"
    using assms(2) by simp
  have "real n * (1 - cp) \<le> real n"
    using assms(1) by (simp add: mult_left_le)
  then have "\<lfloor>real n * (1 - cp)\<rfloor> \<le> \<lfloor>real n\<rfloor>"
    by (rule floor_mono)
  with nonneg show ?thesis
    by (simp add: py_int_def)
qed

lemma randint_range:
  assumes "randint r a b = Inr k" and "below_ok r"
  shows "a \<le> k \<and> k \<le> b"
proof -
  from assms(1) have w: "b + 1 - a > 0" and k: "k = a + int (r (nat (b + 1 - a)))"
    by (auto simp: randint_def Let_def split: if_splits)
  from w have "0 < nat (b + 1 - a)" by simp
  with assms(2) have "r (nat (b + 1 - a)) < nat (b + 1 - a)"
    by (simp add: below_ok_def)
  with k w show ?thesis by linarith
qed

lemma slice_len_inside:
  assumes "0 \<le> s" and "0 \<le> c" and "s + c \<le> int n"
  shows "slice_len n s (s + c) = nat c"
  using assms by (simp add: slice_len_def slice_bound_def)

text \<open>
  C3. When the input path cannot be read or its format cannot be decoded,
  \<^verbatim>\<open>cv2.imread\<close> yields \<open>None\<close> and \<^verbatim>\<open>process_image\<close> fails: the exception reaches the
  caller, and the call reports success for no draws, output path or level.
\<close>

theorem process_image_unreadable:
  assumes "imread fs input_path = None"
  shows "process_image fs d input_path output_path level = Inl AttributeError \<and>
         (\<forall>run. process_image fs d input_path output_path level \<noteq> Inr run)"
  using assms by (simp add: process_image_def)

theorem process_image_unreadable_witness:
  "imread ex_files ''missing.png'' = None \<and>
   process_image ex_files ex_draws ''missing.png'' ''out.png'' 3 = Inl AttributeError"
proof -
  have 1: "imread ex_files ''missing.png'' = None" by (simp add: ex_files_def)
  show ?thesis
    using 1 process_image_unreadable [OF 1, of ex_draws "''out.png''" 3] by simp
qed

text \<open>
  C9. Whenever \<^verbatim>\<open>process_image\<close> processes an image, the crop box it sampled lies within
  the source image (its offsets and extents are not negative, and offset plus extent stays
  within the width and within the height), and the image it writes has the width and the
  height of the source; the call returns \<open>True\<close>.
\<close>

theorem process_image_crop_and_size:
  assumes "imread fs input_path = Some img" and "valid_draws d"
    and "process_image fs d input_path output_path level = Inr run"
  shows "0 \<le> start_x run \<and> 0 \<le> crop_w run \<and> start_x run + crop_w run \<le> int (cols img) \<and>
         0 \<le> start_y run \<and> 0 \<le> crop_h run \<and> start_y run + crop_h run \<le> int (rows img) \<and>
         rows (written run) = rows img \<and> cols (written run) = cols img \<and> returned run"
proof -
  define cp where "cp = crop_percent (image_level_params level d)"
  define cw where "cw = py_int (real (cols img) * (1 - cp))"
  define ch where "ch = py_int (real (rows img) * (1 - cp))"
  have cp: "0 \<le> cp" "cp \<le> 1"
    using crop_percent_range [of d level] assms(2) by (simp_all add: valid_draws_def cp_def)
  have cw: "0 \<le> cw \<and> cw \<le> int (cols img)"
    unfolding cw_def by (rule crop_length_range [OF cp])
  have ch: "0 \<le> ch \<and> ch \<le> int (rows img)"
    unfolding ch_def by (rule crop_length_range [OF cp])
  from assms(1,3) obtain sx sy out where
    sx: "randint (below_x d) 0 (int (cols img) - cw) = Inr sx" and
    sy: "randint (below_y d) 0 (int (rows img) - ch) = Inr sy" and
    out: "cv2_resize (np_slice2 img sy (sy + ch) sx (sx + cw)) (cols img, rows img) = Inr out" and
    run: "run = \<lparr>returned = True, start_x = sx, start_y = sy, crop_w = cw, crop_h = ch,
                 written = \<lparr>rows = rows img, cols = cols img\<rparr>\<rparr>"
    by (auto simp: process_image_def Let_def cp_def cw_def ch_def cv2_warpAffine_def
        cv2_addWeighted_def cv2_cvtColor_def cv2_resize_def
        split: sum.splits if_splits)
  have bx: "below_ok (below_x d)" and by': "below_ok (below_y d)"
    using assms(2) by (simp_all add: valid_draws_def)
  from randint_range [OF sx bx] randint_range [OF sy by'] cw ch run
  show ?thesis by simp
qed

lemma ex_valid_draws: "valid_draws ex_draws"
  by (simp add: valid_draws_def ex_draws_def unit_draw_def below_ok_def)

lemma ex_imread: "imread ex_files ''in.png'' = Some \<lparr>rows = 600, cols = 400\<rparr>"
  by (simp add: ex_files_def)

lemma ex_run:
  "process_image ex_files ex_draws ''in.png'' ''out.png'' 3 =
     Inr \<lparr>returned = True, start_x = 18, start_y = 14, crop_w = 382, crop_h = 573,
          written = \<lparr>rows = 600, cols = 400\<rparr>\<rparr>"
  by (simp add: process_image_def ex_files_def ex_draws_def image_level_params_def
      uniform_def py_int_def randint_def Let_def np_slice2_def slice_len_def slice_bound_def
      cv2_resize_def cv2_warpAffine_def cv2_addWeighted_def cv2_cvtColor_def)

theorem process_image_crop_and_size_witness:
  "imread ex_files ''in.png'' = Some \<lparr>rows = 600, cols = 400\<rparr> \<and> valid_draws ex_draws \<and>
   (\<exists>run. process_image ex_files ex_draws ''in.png'' ''out.png'' 3 = Inr run \<and>
      start_x run = 18 \<and> crop_w run = 382 \<and> start_x run + crop_w run \<le> 400 \<and>
      start_y run = 14 \<and> crop_h run = 573 \<and> start_y run + crop_h run \<le> 600 \<and>
      rows (written run) = 600 \<and> cols (written run) = 400)"
  using ex_imread ex_valid_draws ex_run
    process_image_crop_and_size [OF ex_imread ex_valid_draws ex_run]
  by simp

section \<open>Properties of the uniqueness analyzer\<close>

lemma sample_keyframe_range:
  assumes "phash_contract (phash m)" and "sample_keyframe m oc pc t = Inr p"
  shows "0 \<le> p \<and> p \<le> 100"
proof -
  from assms(2) obtain img h1 h2 where
    "phash m img = Inr h1" and hp: "hash_percentage h1 h2 = Inr p"
    by (auto simp: sample_keyframe_def split: sum.splits)
  with assms(1) have "phash_shape h1"
    by (auto simp: phash_contract_def)
  then show ?thesis using hp by (rule hash_percentage_range)
qed

lemma keyframe_loop_samples:
  "keyframe_loop m oc pc ts acc = acc @ successful_samples m oc pc ts"
  by (induction ts arbitrary: acc)
    (simp_all add: successful_samples_def List.map_filter_simps split: sum.splits)

lemma successful_samples_range:
  assumes "phash_contract (phash m)" and "p \<in> set (successful_samples m oc pc ts)"
  shows "0 \<le> p \<and> p \<le> 100"
proof -
  from assms(2) obtain t where "sample_keyframe m oc pc t = Inr p"
    by (auto simp: successful_samples_def List.map_filter_def split: sum.splits)
  with assms(1) show ?thesis by (rule sample_keyframe_range)
qed

lemma successful_samples_none:
  assumes "\<forall>t \<in> set ts. \<exists>e. sample_keyframe m oc pc t = Inl e"
  shows "successful_samples m oc pc ts = []"
  using assms by (induction ts) (auto simp: successful_samples_def List.map_filter_simps)

lemma sum_list_bounds:
  fixes xs :: "real list"
  assumes "\<forall>x \<in> set xs. 0 \<le> x \<and> x \<le> c"
  shows "0 \<le> sum_list xs \<and> sum_list xs \<le> real (length xs) * c"
  using assms by (induction xs) (auto simp: algebra_simps)

lemma spec_aggregate_range:
  assumes "\<forall>x \<in> set xs. 0 \<le> x \<and> x \<le> c" and "0 \<le> c"
  shows "0 \<le> spec_aggregate xs \<and> spec_aggregate xs \<le> c"
proof (cases "xs = []")
  case True
  with assms(2) show ?thesis by (simp add: spec_aggregate_def)
next
  case False
  then have pos: "0 < real (length xs)" by simp
  from sum_list_bounds [OF assms(1)]
  have lo: "0 \<le> sum_list xs" and hi: "sum_list xs \<le> c * real (length xs)"
    by (simp_all add: mult.commute)
  from hi pos have "sum_list xs / real (length xs) \<le> c"
    by (simp add: pos_divide_le_eq)
  with lo False show ?thesis
    by (simp add: spec_aggregate_def)
qed

lemma dot_nonneg:
  assumes "\<forall>x \<in> set u. 0 \<le> x" and "\<forall>x \<in> set v. 0 \<le> x"
  shows "0 \<le> dot u v"
  unfolding dot_def
proof (rule sum_list_nonneg)
  fix x assume "x \<in> set (map2 (\<lambda>a b. a * b) u v)"
  then obtain a b where "(a, b) \<in> set (zip u v)" and x: "x = a * b" by auto
  then have "a \<in> set u" and "b \<in> set v"
    by (auto dest: set_zip_leftD set_zip_rightD)
  with assms x show "0 \<le> x" by simp
qed

lemma np_abs_nonneg: "\<forall>x \<in> set (flatten (np_abs spec)). 0 \<le> x"
  by (auto simp: flatten_def np_abs_def)

lemma cosine_audio_range:
  assumes "cosine u v = Inr c" and "\<forall>x \<in> set u. 0 \<le> x" and "\<forall>x \<in> set v. 0 \<le> x"
  shows "0 \<le> py_max0 (case (case c of Finite r \<Rightarrow> Finite (1 - r) | NaN \<Rightarrow> NaN) of
                          Finite s \<Rightarrow> Finite ((1 - s) * 100) | NaN \<Rightarrow> NaN) \<and>
         py_max0 (case (case c of Finite r \<Rightarrow> Finite (1 - r) | NaN \<Rightarrow> NaN) of
                    Finite s \<Rightarrow> Finite ((1 - s) * 100) | NaN \<Rightarrow> NaN) \<le> 100"
proof (cases c)
  case NaN
  then show ?thesis by (simp add: py_max0_def)
next
  case (Finite r)
  with assms(1) have r: "r = 1 - dot u v / sqrt (dot u u * dot v v)"
    by (auto simp: cosine_def Let_def split: if_splits)
  have "0 \<le> dot u v / sqrt (dot u u * dot v v)"
    using dot_nonneg [OF assms(2,3)] dot_nonneg [OF assms(2,2)] dot_nonneg [OF assms(3,3)]
    by simp
  with r have "r \<le> 1" by simp
  with Finite show ?thesis by (simp add: py_max0_def)
qed

lemma audio_analysis_range:
  assumes "audio_analysis m oa pa = Inr s"
  shows "0 \<le> s \<and> s \<le> 100"
proof -
  from assms obtain so sp c where
    c: "cosine (flatten (np_abs so)) (flatten (np_abs sp)) = Inr c" and
    s: "s = py_max0 (case (case c of Finite r \<Rightarrow> Finite (1 - r) | NaN \<Rightarrow> NaN) of
                       Finite s \<Rightarrow> Finite ((1 - s) * 100) | NaN \<Rightarrow> NaN)"
    by (auto simp: audio_analysis_def Let_def split: sum.splits)
  show ?thesis
    unfolding s by (rule cosine_audio_range [OF c np_abs_nonneg np_abs_nonneg])
qed

lemma linspace_returns:
  assumes "0 \<le> x"
  shows "\<exists>ts. linspace 0 x (min 10 (py_int x)) = Inr ts"
proof -
  have "0 \<le> \<lfloor>x\<rfloor>" using assms by simp
  moreover have "py_int x = \<lfloor>x\<rfloor>" using assms by (simp add: py_int_def)
  ultimately have "\<not> min 10 (py_int x) < 0" by linarith
  then show ?thesis
    by (simp add: linspace_def)
qed

lemma analyze_unfold:
  assumes "video_open m a = Inr oc" and "video_open m b = Inr pc"
    and "linspace 0 (min (clip_duration oc) (clip_duration pc))
           (min 10 (py_int (min (clip_duration oc) (clip_duration pc)))) = Inr ts"
  shows "analyze_video_uniqueness m a b =
           Inr (spec_aggregate (successful_samples m oc pc ts),
                case (clip_audio oc, clip_audio pc) of
                  (Some oa, Some pa) \<Rightarrow>
                    (case audio_analysis m oa pa of Inl e \<Rightarrow> 0 | Inr s \<Rightarrow> s)
                | _ \<Rightarrow> 0)"
  using assms
  by (simp add: analyze_video_uniqueness_def Let_def keyframe_loop_samples
      spec_aggregate_def np_mean_def)

lemma ex_open_original: "video_open ex_media ''original.mp4'' = Inr ex_original"
  by (simp add: ex_media_def)

lemma ex_open_processed: "video_open ex_media ''processed.mp4'' = Inr ex_processed"
  by (simp add: ex_media_def)

lemma ex_open_silent: "video_open ex_media ''silent.mp4'' = Inr ex_silent"
  by (simp add: ex_media_def)

lemma ex_open_broken: "video_open ex_media ''broken.mp4'' = Inr ex_broken"
  by (simp add: ex_media_def)

lemma ex_linspace3: "linspace 0 3 (min 10 (py_int 3)) = Inr [0, 3/2, 3]"
  by (simp add: linspace_def py_int_def eval_nat_numeral upt_rec)

lemma ex_linspace2: "linspace 0 2 (min 10 (py_int 2)) = Inr [0, 2]"
  by (simp add: linspace_def py_int_def eval_nat_numeral upt_rec)

lemma ex_percentage: "hash_percentage (ex_hash 0) (ex_hash 2) = Inr 25"
  by (simp add: hash_percentage_def hash_sub_hamming hash_size_def itemsize_def ex_hash_def
      eval_nat_numeral)

lemma ex_sample_first:
  "sample_keyframe ex_media ex_original pc 0 = Inl OSError"
  by (simp add: sample_keyframe_def ex_original_def)

lemma ex_sample_later:
  "t \<noteq> 0 \<Longrightarrow> sample_keyframe ex_media ex_original ex_processed t = Inr 25"
  "t \<noteq> 0 \<Longrightarrow> sample_keyframe ex_media ex_original ex_silent t = Inr 25"
  by (simp_all add: sample_keyframe_def ex_original_def ex_processed_def ex_silent_def
      ex_media_def ex_percentage)

lemma ex_sample_broken: "sample_keyframe m ex_broken pc t = Inl OSError"
  by (simp add: sample_keyframe_def ex_broken_def)

lemma ex_audio_differs: "audio_analysis ex_media 3 2 = Inr 100"
  by (simp add: audio_analysis_def ex_media_def cosine_def dot_def flatten_def np_abs_def
      py_max0_def Let_def)

lemma ex_audio_same: "audio_analysis ex_media 2 2 = Inr 0"
  by (simp add: audio_analysis_def ex_media_def cosine_def dot_def flatten_def np_abs_def
      py_max0_def Let_def)

lemma ex_analyze:
  "analyze_video_uniqueness ex_media ''original.mp4'' ''processed.mp4'' = Inr (25, 100)"
proof -
  have ts: "linspace 0 (min (clip_duration ex_original) (clip_duration ex_processed))
      (min 10 (py_int (min (clip_duration ex_original) (clip_duration ex_processed))))
      = Inr [0, 3/2, 3]"
    using ex_linspace3 by (simp add: ex_original_def ex_processed_def)
  have "successful_samples ex_media ex_original ex_processed [0, 3/2, 3] = [25, 25]"
    by (simp add: successful_samples_def List.map_filter_simps ex_sample_first ex_sample_later)
  moreover have "clip_audio ex_original = Some 3" "clip_audio ex_processed = Some 2"
    by (simp_all add: ex_original_def ex_processed_def)
  ultimately show ?thesis
    using analyze_unfold [OF ex_open_original ex_open_processed ts]
    by (simp add: spec_aggregate_def ex_audio_differs)
qed

lemma ex_analyze_silent:
  "analyze_video_uniqueness ex_media ''original.mp4'' ''silent.mp4'' = Inr (25, 0)"
proof -
  have ts: "linspace 0 (min (clip_duration ex_original) (clip_duration ex_silent))
      (min 10 (py_int (min (clip_duration ex_original) (clip_duration ex_silent))))
      = Inr [0, 3/2, 3]"
    using ex_linspace3 by (simp add: ex_original_def ex_silent_def)
  have "successful_samples ex_media ex_original ex_silent [0, 3/2, 3] = [25, 25]"
    by (simp add: successful_samples_def List.map_filter_simps ex_sample_first ex_sample_later)
  moreover have "clip_audio ex_silent = None"
    by (simp add: ex_silent_def)
  ultimately show ?thesis
    using analyze_unfold [OF ex_open_original ex_open_silent ts]
    by (simp add: spec_aggregate_def split: option.splits)
qed

lemma ex_analyze_broken:
  "analyze_video_uniqueness ex_media ''broken.mp4'' ''processed.mp4'' = Inr (0, 0)"
proof -
  have ts: "linspace 0 (min (clip_duration ex_broken) (clip_duration ex_processed))
      (min 10 (py_int (min (clip_duration ex_broken) (clip_duration ex_processed))))
      = Inr [0, 2]"
    using ex_linspace2 by (simp add: ex_broken_def ex_processed_def)
  have "successful_samples ex_media ex_broken ex_processed [0, 2] = []"
    by (simp add: successful_samples_def List.map_filter_simps ex_sample_broken)
  moreover have "clip_audio ex_broken = Some 2" "clip_audio ex_processed = Some 2"
    by (simp_all add: ex_broken_def ex_processed_def)
  ultimately show ?thesis
    using analyze_unfold [OF ex_open_broken ex_open_processed ts]
    by (simp add: spec_aggregate_def ex_audio_same)
qed


lemma ex_difference: "calculate_phash_difference ex_media ''a.png'' ''b.png'' = Inr 25"
  by (simp add: calculate_phash_difference_def ex_image_a ex_image_b ex_phash ex_percentage)

text \<open>
  C4. Every percentage computed lies between 0 and 100: the percentage that
  \<^verbatim>\<open>calculate_phash_difference\<close> returns, and both components of the pair that
  \<^verbatim>\<open>analyze_video_uniqueness\<close> returns, the average hash difference and the audio
  dissimilarity.
\<close>

theorem percentages_in_range:
  assumes "phash_contract (phash m)"
  shows "(calculate_phash_difference m a b = Inr p \<longrightarrow> 0 \<le> p \<and> p \<le> 100) \<and>
         (analyze_video_uniqueness m c d = Inr (avg, aud) \<longrightarrow>
            0 \<le> avg \<and> avg \<le> 100 \<and> 0 \<le> aud \<and> aud \<le> 100)"
proof (intro conjI impI)
  assume "calculate_phash_difference m a b = Inr p"
  then obtain img h1 h2 where "phash m img = Inr h1" and hp: "hash_percentage h1 h2 = Inr p"
    by (auto simp: calculate_phash_difference_def split: sum.splits)
  with assms have "phash_shape h1"
    by (auto simp: phash_contract_def)
  from hash_percentage_range [OF this hp] show "0 \<le> p" and "p \<le> 100"
    by simp_all
next
  assume r: "analyze_video_uniqueness m c d = Inr (avg, aud)"
  then obtain oc pc ts where
    oc: "video_open m c = Inr oc" and pc: "video_open m d = Inr pc" and
    ts: "linspace 0 (min (clip_duration oc) (clip_duration pc))
           (min 10 (py_int (min (clip_duration oc) (clip_duration pc)))) = Inr ts"
    by (auto simp: analyze_video_uniqueness_def Let_def split: sum.splits)
  from analyze_unfold [OF oc pc ts] r
  have avg: "avg = spec_aggregate (successful_samples m oc pc ts)" and
    aud: "aud = (case (clip_audio oc, clip_audio pc) of
                   (Some oa, Some pa) \<Rightarrow>
                     (case audio_analysis m oa pa of Inl e \<Rightarrow> 0 | Inr s \<Rightarrow> s)
                 | _ \<Rightarrow> 0)"
    by simp_all
  have "\<forall>x \<in> set (successful_samples m oc pc ts). 0 \<le> x \<and> x \<le> 100"
    using successful_samples_range [OF assms] by blast
  from spec_aggregate_range [OF this] avg show "0 \<le> avg" and "avg \<le> 100"
    by simp_all
  have "0 \<le> aud \<and> aud \<le> 100"
    unfolding aud using audio_analysis_range [of m]
    by (auto split: option.splits sum.splits)
  then show "0 \<le> aud" and "aud \<le> 100"
    by simp_all
qed

theorem percentages_in_range_witness:
  "phash_contract (phash ex_media) \<and>
   calculate_phash_difference ex_media ''a.png'' ''b.png'' = Inr 25 \<and>
   analyze_video_uniqueness ex_media ''original.mp4'' ''processed.mp4'' = Inr (25, 100) \<and>
   (0::real) \<le> 25 \<and> (25::real) \<le> 100 \<and> (0::real) \<le> 100 \<and> (100::real) \<le> 100"
  using ex_phash_contract ex_difference ex_analyze
    percentages_in_range [OF ex_phash_contract, of "''a.png''" "''b.png''" 25
      "''original.mp4''" "''processed.mp4''" 25 100]
  by simp

text \<open>
  C6. A keyframe sample whose frame extraction or hashing raises is passed over and the
  analysis goes on: for two clips that open, \<^verbatim>\<open>analyze_video_uniqueness\<close> returns, and the
  first component of its result is the arithmetic mean of the percentages of the samples
  that succeeded; when every sample fails it is exactly 0.
\<close>

theorem keyframe_failures_skipped:
  assumes "video_open m a = Inr oc" and "video_open m b = Inr pc"
    and "0 \<le> clip_duration oc" and "0 \<le> clip_duration pc"
  shows "\<exists>ts aud.
           linspace 0 (min (clip_duration oc) (clip_duration pc))
             (min 10 (py_int (min (clip_duration oc) (clip_duration pc)))) = Inr ts \<and>
           analyze_video_uniqueness m a b =
             Inr (spec_aggregate (successful_samples m oc pc ts), aud) \<and>
           ((\<forall>t \<in> set ts. \<exists>e. sample_keyframe m oc pc t = Inl e) \<longrightarrow>
              analyze_video_uniqueness m a b = Inr (0, aud))"
proof -
  from assms(3,4) have "0 \<le> min (clip_duration oc) (clip_duration pc)"
    by simp
  from linspace_returns [OF this] obtain ts where
    ts: "linspace 0 (min (clip_duration oc) (clip_duration pc))
           (min 10 (py_int (min (clip_duration oc) (clip_duration pc)))) = Inr ts" ..
  note r = analyze_unfold [OF assms(1,2) ts]
  have "(\<forall>t \<in> set ts. \<exists>e. sample_keyframe m oc pc t = Inl e) \<longrightarrow>
          spec_aggregate (successful_samples m oc pc ts) = 0"
    by (simp add: successful_samples_none spec_aggregate_def)
  with ts r show ?thesis by auto
qed

theorem keyframe_failures_skipped_witness:
  "video_open ex_media ''original.mp4'' = Inr ex_original \<and>
   video_open ex_media ''processed.mp4'' = Inr ex_processed \<and>
   0 \<le> clip_duration ex_original \<and> 0 \<le> clip_duration ex_processed \<and>
   (\<exists>ts aud.
      analyze_video_uniqueness ex_media ''original.mp4'' ''processed.mp4'' =
        Inr (spec_aggregate (successful_samples ex_media ex_original ex_processed ts), aud)) \<and>
   sample_keyframe ex_media ex_original ex_processed 0 = Inl OSError \<and>
   analyze_video_uniqueness ex_media ''original.mp4'' ''processed.mp4'' = Inr (25, 100) \<and>
   analyze_video_uniqueness ex_media ''broken.mp4'' ''processed.mp4'' = Inr (0, 0)"
proof -
  have d: "0 \<le> clip_duration ex_original" "0 \<le> clip_duration ex_processed"
    by (simp_all add: ex_original_def ex_processed_def)
  from keyframe_failures_skipped [OF ex_open_original ex_open_processed d]
  have "\<exists>ts aud.
      analyze_video_uniqueness ex_media ''original.mp4'' ''processed.mp4'' =
        Inr (spec_aggregate (successful_samples ex_media ex_original ex_processed ts), aud)"
    by blast
  with d show ?thesis
    by (simp add: ex_open_original ex_open_processed ex_sample_first ex_analyze
        ex_analyze_broken)
qed

text \<open>
  C2, as stated, fails: the silent clip has no audio track, and the audio component that
  \<^verbatim>\<open>analyze_video_uniqueness\<close> returns for it is the number 0.
\<close>

theorem no_audio_is_zero_counterexample:
  "clip_audio ex_silent = None \<and>
   video_open ex_media ''original.mp4'' = Inr ex_original \<and>
   video_open ex_media ''silent.mp4'' = Inr ex_silent \<and>
   analyze_video_uniqueness ex_media ''original.mp4'' ''silent.mp4'' = Inr (25, 0)"
  by (simp add: ex_open_original ex_open_silent ex_analyze_silent ex_silent_def)

text \<open>
  C2, amended. When at least one of the two clips has no audio track, the audio component
  of the result of \<^verbatim>\<open>analyze_video_uniqueness\<close> is the number 0, the initial value of
  \<^verbatim>\<open>audio_similarity\<close>.
\<close>

theorem no_audio_is_zero:
  assumes "video_open m a = Inr oc" and "video_open m b = Inr pc"
    and "0 \<le> clip_duration oc" and "0 \<le> clip_duration pc"
    and "clip_audio oc = None \<or> clip_audio pc = None"
  shows "\<exists>avg. analyze_video_uniqueness m a b = Inr (avg, 0)"
proof -
  from assms(3,4) have "0 \<le> min (clip_duration oc) (clip_duration pc)"
    by simp
  from linspace_returns [OF this] obtain ts where
    ts: "linspace 0 (min (clip_duration oc) (clip_duration pc))
           (min 10 (py_int (min (clip_duration oc) (clip_duration pc)))) = Inr ts" ..
  from analyze_unfold [OF assms(1,2) ts] assms(5) show ?thesis
    by (auto split: option.splits)
qed

theorem no_audio_is_zero_witness:
  "video_open ex_media ''original.mp4'' = Inr ex_original \<and>
   video_open ex_media ''silent.mp4'' = Inr ex_silent \<and>
   0 \<le> clip_duration ex_original \<and> 0 \<le> clip_duration ex_silent \<and>
   (clip_audio ex_original = None \<or> clip_audio ex_silent = None) \<and>
   (\<exists>avg. analyze_video_uniqueness ex_media ''original.mp4'' ''silent.mp4'' = Inr (avg, 0))"
proof -
  have d: "0 \<le> clip_duration ex_original" "0 \<le> clip_duration ex_silent"
    by (simp_all add: ex_original_def ex_silent_def)
  have n: "clip_audio ex_original = None \<or> clip_audio ex_silent = None"
    by (simp add: ex_silent_def)
  from no_audio_is_zero [OF ex_open_original ex_open_silent d n] d n show ?thesis
    by (simp add: ex_open_original ex_open_silent)
qed

section \<open>Properties of the risk classifier\<close>

lemma risk_labels_distinct:
  "risk_low \<noteq> risk_medium" "risk_low \<noteq> risk_high" "risk_medium \<noteq> risk_high"
  by (simp_all add: risk_low_def risk_medium_def risk_high_def)

text \<open>
  C1, as stated, fails: the labels that \<^verbatim>\<open>get_risk_level\<close> returns are the string
  literals of \<^verbatim>\<open>main.py\<close>, not the strings \<open>Low risk\<close>, \<open>Medium risk\<close> and
  \<open>High risk\<close>. At the four boundary values 45, 44.999, 30 and 29.999 the result differs
  from the string the claim names.
\<close>

theorem get_risk_level_labels_counterexample:
  "get_risk_level 45 None \<noteq> ''Low risk'' \<and>
   get_risk_level 44.999 None \<noteq> ''Medium risk'' \<and>
   get_risk_level 30 None \<noteq> ''Medium risk'' \<and>
   get_risk_level 29.999 None \<noteq> ''High risk''"
  by (simp add: get_risk_level_def risk_low_def risk_medium_def risk_high_def)

text \<open>
  C1, amended. The label is decided by the percentage alone, with exact boundaries: from
  45 upwards the low-risk label, from 30 up to but excluding 45 the medium-risk label,
  below 30 the high-risk label, where the three labels are the string literals of lines
  291, 293 and 295 of \<^verbatim>\<open>main.py\<close>; they are pairwise different, and the four boundary
  values 45, 44.999, 30 and 29.999 are classified low, medium, medium and high.
\<close>

theorem get_risk_level_boundaries:
  "(p \<ge> 45 \<longrightarrow> get_risk_level p a = risk_low) \<and>
   (30 \<le> p \<and> p < 45 \<longrightarrow> get_risk_level p a = risk_medium) \<and>
   (p < 30 \<longrightarrow> get_risk_level p a = risk_high) \<and>
   risk_low \<noteq> risk_medium \<and> risk_low \<noteq> risk_high \<and> risk_medium \<noteq> risk_high \<and>
   get_risk_level 45 None = risk_low \<and>
   get_risk_level 44.999 None = risk_medium \<and>
   get_risk_level 30 None = risk_medium \<and>
   get_risk_level 29.999 None = risk_high"
  by (simp add: get_risk_level_def risk_labels_distinct)

theorem get_risk_level_boundaries_witness:
  "get_risk_level 50 None = risk_low \<and>
   get_risk_level 37.5 (Some 12) = risk_medium \<and>
   get_risk_level 0 None = risk_high"
  using get_risk_level_boundaries [of 50 None]
        get_risk_level_boundaries [of "37.5" "Some 12"]
        get_risk_level_boundaries [of 0 None]
  by simp

text \<open>
  C10. The second argument never influences the label: two calls with the same percentage
  and any two values of \<open>audio_similarity\<close> return the same label.
\<close>

theorem get_risk_level_ignores_audio:
  "get_risk_level p a1 = get_risk_level p a2"
  by (simp add: get_risk_level_def)

end
